theory Spec2Isabelle
  imports Main "HOL-Library.Word"
begin

section \<open>Values of the two servers\<close>

text \<open>
  The repository holds two variants of one Express server: \<^verbatim>\<open>src/index.js\<close> (called
  \<open>index\<close> below) and \<^verbatim>\<open>src/unnamed/part_000\<close> (called \<open>part000\<close>). Both are
  embedded function by function. What a handler does to the outside world is kept in
  an explicit state: the files on disk and the trace of observable events (console
  output, deletions, calls of the generation client, HTTP responses), in the order in
  which the handler performs them.

  Strings are sequences of bytes (UTF-8). The three pictographs of the source's string
  literals are written as the bytes of their encoding.
\<close>

definition fire :: string where
  "fire = [CHR 0xF0, CHR 0x9F, CHR 0x94, CHR 0xA5]"

definition outbox :: string where
  "outbox = [CHR 0xF0, CHR 0x9F, CHR 0x93, CHR 0xA4]"

definition check_mark :: string where
  "check_mark = [CHR 0xE2, CHR 0x9C, CHR 0x85]"

type_synonym path = string
type_synonym bytes = "8 word list"

text \<open>
  Thrown values. \<open>Error\<close> is a plain \<^verbatim>\<open>new Error(message)\<close> (also what the
  generation client rejects with), \<open>SystemError\<close> a failure of the \<^verbatim>\<open>fs\<close> module with
  its code and message, \<open>MulterError\<close> an instance of \<^verbatim>\<open>multer.MulterError\<close> with its
  code and message.
\<close>

datatype js_error =
    Error string
  | TypeError string
  | SystemError string string
  | MulterError string string

fun message :: "js_error \<Rightarrow> string" where
  "message (Error m) = m"
| "message (TypeError m) = m"
| "message (SystemError c m) = m"
| "message (MulterError c m) = m"

text \<open>Reading a property of \<^verbatim>\<open>undefined\<close>, as in \<^verbatim>\<open>req.file.size\<close> without a file.\<close>

definition cannot_read :: "string \<Rightarrow> js_error" where
  "cannot_read prop =
     TypeError (''Cannot read properties of undefined (reading '' @ [CHR 0x27] @ prop @ [CHR 0x27] @ '')'')"

definition enoent :: "string \<Rightarrow> path \<Rightarrow> js_error" where
  "enoent syscall p =
     SystemError ''ENOENT''
       (''ENOENT: no such file or directory, '' @ syscall @ '' '' @ [CHR 0x27] @ p @ [CHR 0x27])"

datatype json = JString string | JBool bool | JObject "(string \<times> json) list"

text \<open>
  A response is a status and what was sent: a JSON document (\<^verbatim>\<open>res.json\<close>), a text
  (\<^verbatim>\<open>res.send\<close>), or a page written by Express's final handler when no layer of the
  application answered.
\<close>

datatype payload = Json json | Plain string | ErrorPage js_error | NotFoundPage

record response =
  status :: nat
  payload :: payload

datatype part = Text string | InlineData string string

record content =
  role :: string
  parts :: "part list"

record generate_request =
  model :: string
  contents :: "content list"

record generate_response =
  result_text :: string

datatype log_arg = LStr string | LErr js_error | LUpload nat string

datatype event =
    ConsoleLog string "log_arg list"
  | ConsoleError string "log_arg list"
  | Unlinked path
  | Called generate_request
  | Sent response

record server =
  files :: "path \<rightharpoonup> bytes"
  trace :: "event list"

text \<open>
  What the handlers do not decide themselves: whether reading an existing file or
  encoding its bytes fails, how the generation service settles a call (it resolves with
  a result or rejects with an error), and the random name multer gives a stored upload.
\<close>

record env =
  read_fault :: "path \<Rightarrow> js_error option"
  encode_fault :: "bytes \<Rightarrow> js_error option"
  upstream :: "generate_request \<Rightarrow> js_error + generate_response"
  filename :: string

text \<open>
  The \<^verbatim>\<open>req\<close> object: method and path, the multipart form the request carries (if it
  is a multipart request), and the two properties the upload middleware fills in,
  \<^verbatim>\<open>req.file\<close> and \<^verbatim>\<open>req.body\<close>, each of which can be \<^verbatim>\<open>undefined\<close>.
\<close>

record upload =
  path :: path
  mimetype :: string
  size_bytes :: nat

record file_part =
  part_mimetype :: string
  part_content :: bytes

record multipart =
  text_fields :: "string \<rightharpoonup> string"
  image :: "file_part option"

record request =
  req_method :: string
  req_url :: string
  incoming :: "multipart option"
  req_file :: "upload option"
  req_body :: "(string \<rightharpoonup> string) option"

section \<open>Statements that may throw\<close>

text \<open>
  A statement takes the server state and returns either the thrown value or its result,
  with the state as it is at that moment: effects performed before a throw stay.
\<close>

type_synonym 'a js = "server \<Rightarrow> (js_error + 'a) \<times> server"

definition ret :: "'a \<Rightarrow> 'a js" where
  "ret v s = (Inr v, s)"

definition throw :: "js_error \<Rightarrow> 'a js" where
  "throw e s = (Inl e, s)"

definition js_bind :: "'a js \<Rightarrow> ('a \<Rightarrow> 'b js) \<Rightarrow> 'b js" where
  "js_bind m k s = (case m s of (Inl e, s') \<Rightarrow> (Inl e, s') | (Inr v, s') \<Rightarrow> k v s')"

definition try_catch :: "'a js \<Rightarrow> (js_error \<Rightarrow> 'a js) \<Rightarrow> 'a js" where
  "try_catch block handler s =
     (case block s of (Inl e, s') \<Rightarrow> handler e s' | (Inr v, s') \<Rightarrow> (Inr v, s'))"

definition emit :: "event \<Rightarrow> unit js" where
  "emit ev s = (Inr (), s\<lparr>trace := trace s @ [ev]\<rparr>)"

subsection \<open>Console, file system, buffers\<close>

definition console_log :: "string \<Rightarrow> log_arg list \<Rightarrow> unit js" where
  "console_log label args = emit (ConsoleLog label args)"

definition console_error :: "string \<Rightarrow> log_arg list \<Rightarrow> unit js" where
  "console_error label args = emit (ConsoleError label args)"

definition existsSync :: "server \<Rightarrow> path \<Rightarrow> bool" where
  "existsSync s p = (files s p \<noteq> None)"

definition readFileSync :: "env \<Rightarrow> path \<Rightarrow> bytes js" where
  "readFileSync ev p s =
     (case files s p of
        None \<Rightarrow> (Inl (enoent ''open'' p), s)
      | Some b \<Rightarrow> (case read_fault ev p of Some e \<Rightarrow> (Inl e, s) | None \<Rightarrow> (Inr b, s)))"

text \<open>\<^verbatim>\<open>fs.unlinkSync\<close> removes an existing file and throws on a missing one.\<close>

definition unlinkSync :: "path \<Rightarrow> unit js" where
  "unlinkSync p s =
     (case files s p of
        None \<Rightarrow> (Inl (enoent ''unlink'' p), s)
      | Some b \<Rightarrow> (Inr (), s\<lparr>files := (files s)(p := None), trace := trace s @ [Unlinked p]\<rparr>))"

text \<open>\<^verbatim>\<open>Buffer.toString("base64")\<close>: the standard alphabet, padded with \<open>=\<close>.\<close>

definition b64 :: "nat \<Rightarrow> char" where
  "b64 n = ''ABCDEFGHIJKLMNOPQRSTUVWXYZabcdefghijklmnopqrstuvwxyz0123456789+/'' ! n"

fun base64 :: "bytes \<Rightarrow> string" where
  "base64 [] = []"
| "base64 [a] =
     (let x = unat a in [b64 (x div 4), b64 ((x mod 4) * 16), CHR ''='', CHR ''=''])"
| "base64 [a, b] =
     (let x = unat a; y = unat b
      in [b64 (x div 4), b64 ((x mod 4) * 16 + y div 16), b64 ((y mod 16) * 4), CHR ''=''])"
| "base64 (a # b # c # rest) =
     (let x = unat a; y = unat b; z = unat c
      in [b64 (x div 4), b64 ((x mod 4) * 16 + y div 16),
          b64 ((y mod 16) * 4 + z div 64), b64 (z mod 64)] @ base64 rest)"

definition toString_base64 :: "env \<Rightarrow> bytes \<Rightarrow> string js" where
  "toString_base64 ev buf =
     (case encode_fault ev buf of Some e \<Rightarrow> throw e | None \<Rightarrow> ret (base64 buf))"

subsection \<open>Request properties, the response object, the generation client\<close>

text \<open>\<^verbatim>\<open>req.file.<prop>\<close>: a TypeError when \<^verbatim>\<open>req.file\<close> is undefined.\<close>

definition file_of :: "request \<Rightarrow> string \<Rightarrow> upload js" where
  "file_of req prop =
     (case req_file req of None \<Rightarrow> throw (cannot_read prop) | Some f \<Rightarrow> ret f)"

text \<open>\<^verbatim>\<open>req.body.<prop>\<close>: a TypeError when \<^verbatim>\<open>req.body\<close> is undefined.\<close>

definition body_prop :: "request \<Rightarrow> string \<Rightarrow> string option js" where
  "body_prop req prop =
     (case req_body req of None \<Rightarrow> throw (cannot_read prop) | Some b \<Rightarrow> ret (b prop))"

text \<open>\<^verbatim>\<open>x || d\<close> on a string or undefined: the empty string is falsy.\<close>

definition or_else :: "string option \<Rightarrow> string \<Rightarrow> string" where
  "or_else x d = (case x of None \<Rightarrow> d | Some v \<Rightarrow> if v = [] then d else v)"

definition res_json :: "nat \<Rightarrow> json \<Rightarrow> unit js" where
  "res_json st j = emit (Sent \<lparr>status = st, payload = Json j\<rparr>)"

definition res_send :: "string \<Rightarrow> unit js" where
  "res_send t = emit (Sent \<lparr>status = 200, payload = Plain t\<rparr>)"

text \<open>\<^verbatim>\<open>await client.models.generateContent(request)\<close>.\<close>

definition generateContent :: "env \<Rightarrow> generate_request \<Rightarrow> generate_response js" where
  "generateContent ev g =
     js_bind (emit (Called g))
       (\<lambda>_. case upstream ev g of Inl e \<Rightarrow> throw e | Inr r \<Rightarrow> ret r)"

section \<open>The handlers\<close>

subsection \<open>Deleting the temporary file\<close>

text \<open>
  The last statement before the response in the \<^verbatim>\<open>try\<close> block of both variants
  (\<^verbatim>\<open>index.js\<close> line 102, \<^verbatim>\<open>part_000\<close> line 115): \<^verbatim>\<open>fs.unlinkSync(req.file.path)\<close>,
  with no check before it.
\<close>

definition cleanup_try :: "upload \<Rightarrow> unit js" where
  "cleanup_try f = unlinkSync (path f)"

text \<open>
  The cleanup of the \<^verbatim>\<open>catch\<close> block of both variants (\<^verbatim>\<open>index.js\<close> lines 108-110,
  \<^verbatim>\<open>part_000\<close> lines 123-125):
  \<^verbatim>\<open>if (req.file?.path && fs.existsSync(req.file.path)) fs.unlinkSync(req.file.path)\<close>.
\<close>

definition cleanup_catch :: "request \<Rightarrow> unit js" where
  "cleanup_catch req s =
     (case req_file req of
        None \<Rightarrow> (Inr (), s)
      | Some f \<Rightarrow>
          if path f \<noteq> [] \<and> existsSync s (path f) then unlinkSync (path f) s else (Inr (), s))"

subsection \<open>\<^verbatim>\<open>src/index.js\<close>\<close>

definition health_index :: "request \<Rightarrow> unit js" where
  "health_index req = res_send (''Gemini backend running '' @ check_mark)"

definition test_gemini_index :: "env \<Rightarrow> request \<Rightarrow> unit js" where
  "test_gemini_index ev req =
     js_bind
       (generateContent ev
          \<lparr>model = ''gemini-1.5-flash'',
           contents = [\<lparr>role = ''user'', parts = [Text ''Say hello'']\<rparr>]\<rparr>)
       (\<lambda>result. res_json 200 (JObject [(''output'', JString (result_text result))]))"

definition analyze_image_index :: "env \<Rightarrow> request \<Rightarrow> unit js" where
  "analyze_image_index ev req =
     try_catch
       (js_bind (file_of req ''size'') (\<lambda>f.
        js_bind (console_log (outbox @ '' Image received:'') [LUpload (size_bytes f) (mimetype f)]) (\<lambda>_.
        js_bind (readFileSync ev (path f)) (\<lambda>imageBuffer.
        js_bind (toString_base64 ev imageBuffer) (\<lambda>base64Image.
        js_bind (body_prop req ''prompt'') (\<lambda>p.
        let prompt = or_else p ''Analyze this image'' in
        js_bind
          (generateContent ev
             \<lparr>model = ''gemini-1.5-flash'',
              contents =
                [\<lparr>role = ''user'',
                  parts = [Text prompt, InlineData (mimetype f) base64Image]\<rparr>]\<rparr>)
          (\<lambda>result.
        js_bind (cleanup_try f) (\<lambda>_.
        res_json 200 (JObject [(''output'', JString (result_text result))])))))))))
       (\<lambda>err.
        js_bind (console_error (fire @ '' Gemini error:'') [LErr err]) (\<lambda>_.
        js_bind (cleanup_catch req) (\<lambda>_.
        res_json 500
          (JObject
             [(''error'', JString ''Gemini processing failed''),
              (''details'', JString (message err))]))))"

subsection \<open>\<^verbatim>\<open>src/unnamed/part_000\<close>\<close>

definition health_part000 :: "request \<Rightarrow> unit js" where
  "health_part000 req = res_send (check_mark @ '' Gemini backend is running'')"

definition test_gemini_part000 :: "env \<Rightarrow> request \<Rightarrow> unit js" where
  "test_gemini_part000 ev req =
     try_catch
       (js_bind
          (generateContent ev
             \<lparr>model = ''gemini-2.0-flash'',
              contents =
                [\<lparr>role = ''user'',
                  parts = [Text ''Say 'Gemini API is working' in one sentence.'']\<rparr>]\<rparr>)
          (\<lambda>result.
             res_json 200
               (JObject [(''success'', JBool True), (''output'', JString (result_text result))])))
       (\<lambda>error.
        js_bind (console_error ''Gemini test error:'' [LErr error]) (\<lambda>_.
        res_json 500
          (JObject
             [(''success'', JBool False), (''error'', JString ''Gemini API test failed'')])))"

definition analyze_image_part000 :: "env \<Rightarrow> request \<Rightarrow> unit js" where
  "analyze_image_part000 ev req =
     try_catch
       (case req_file req of
          None \<Rightarrow> res_json 400 (JObject [(''error'', JString ''Image is required'')])
        | Some f \<Rightarrow>
            js_bind (body_prop req ''prompt'') (\<lambda>p.
            let prompt = or_else p ''Analyze this image and explain what you see'' in
            js_bind (readFileSync ev (path f)) (\<lambda>imageBuffer.
            js_bind (toString_base64 ev imageBuffer) (\<lambda>base64Image.
            js_bind
              (generateContent ev
                 \<lparr>model = ''gemini-2.0-flash'',
                  contents =
                    [\<lparr>role = ''user'',
                      parts = [Text prompt, InlineData (mimetype f) base64Image]\<rparr>]\<rparr>)
              (\<lambda>result.
            js_bind (cleanup_try f) (\<lambda>_.
            res_json 200 (JObject [(''output'', JString (result_text result))])))))))
       (\<lambda>error.
        js_bind (console_error ''Gemini image error:'' [LErr error]) (\<lambda>_.
        js_bind (cleanup_catch req) (\<lambda>_.
        res_json 500 (JObject [(''error'', JString ''Image analysis failed'')]))))"

section \<open>The upload middleware\<close>

text \<open>
  A file filter answers through its callback: \<^verbatim>\<open>cb(error)\<close> or
  \<^verbatim>\<open>cb(null, include)\<close>. The calls it makes are collected in order.
\<close>

datatype cb_call = CbError js_error | CbAccept bool

definition startsWith :: "string \<Rightarrow> string \<Rightarrow> bool" where
  "startsWith s p = (take (length p) s = p)"

text \<open>
  The \<^verbatim>\<open>fileFilter\<close> of \<^verbatim>\<open>part_000\<close> (lines 26-31). The \<^verbatim>\<open>if\<close> has no
  \<^verbatim>\<open>return\<close> and no \<^verbatim>\<open>else\<close>: the statement after it runs in both cases.
\<close>

definition fileFilter_part000 :: "file_part \<Rightarrow> cb_call list" where
  "fileFilter_part000 file =
     (if \<not> startsWith (part_mimetype file) ''image/''
      then [CbError (Error ''Only image files allowed'')] else [])
     @ [CbAccept True]"

record upload_options =
  dest :: string
  fileSize :: nat
  fileFilter :: "(file_part \<Rightarrow> cb_call list) option"

definition upload_index :: upload_options where
  "upload_index = \<lparr>dest = ''uploads/'', fileSize = 10 * 1024 * 1024, fileFilter = None\<rparr>"

definition upload_part000 :: upload_options where
  "upload_part000 =
     \<lparr>dest = ''uploads/'', fileSize = 5 * 1024 * 1024, fileFilter = Some fileFilter_part000\<rparr>"

text \<open>
  How a middleware or a route handler leaves: it calls \<^verbatim>\<open>next()\<close>, it calls
  \<^verbatim>\<open>next(err)\<close>, it has answered the request, or (an \<^verbatim>\<open>async\<close> handler) its promise
  rejects.
\<close>

datatype step = Next | NextErr js_error | Ended | Rejected js_error

type_synonym middleware = "request \<Rightarrow> server \<Rightarrow> step \<times> request \<times> server"
type_synonym error_middleware = "js_error \<Rightarrow> request \<Rightarrow> server \<Rightarrow> step \<times> request \<times> server"

text \<open>Multer aborts an upload with the first error its file filter reports.\<close>

fun filter_error :: "cb_call list \<Rightarrow> js_error option" where
  "filter_error [] = None"
| "filter_error (CbError e # cs) = Some e"
| "filter_error (CbAccept b # cs) = filter_error cs"

text \<open>
  \<^verbatim>\<open>upload.single("image")\<close>, multer's middleware with disk storage, on a request that
  carries at most one file part, named \<open>image\<close>. A request that is not multipart passes
  untouched. Otherwise \<^verbatim>\<open>req.body\<close> receives the text fields; a file part is first
  shown to the file filter, then streamed to \<open>dest\<close> under a random name; when it grows
  beyond \<open>fileSize\<close> bytes the upload is aborted with the MulterError
  \<open>LIMIT_FILE_SIZE\<close>, what was written is removed and the next layer is not run.
  What the storage engine does when a filter reports an error and accepts the same file
  is not modelled: the files stay as they were.
\<close>

definition upload_single :: "upload_options \<Rightarrow> env \<Rightarrow> middleware" where
  "upload_single opts ev req s =
     (case incoming req of
        None \<Rightarrow> (Next, req, s)
      | Some form \<Rightarrow>
          let req1 = req\<lparr>req_body := Some (text_fields form)\<rparr> in
          (case image form of
             None \<Rightarrow> (Next, req1, s)
           | Some file \<Rightarrow>
               let calls = (case fileFilter opts of None \<Rightarrow> [CbAccept True] | Some flt \<Rightarrow> flt file) in
               (case filter_error calls of
                  Some e \<Rightarrow> (NextErr e, req1, s)
                | None \<Rightarrow>
                    if CbAccept True \<notin> set calls then (Next, req1, s)
                    else if fileSize opts < length (part_content file)
                    then (NextErr (MulterError ''LIMIT_FILE_SIZE'' ''File too large''), req1, s)
                    else
                      let p = dest opts @ filename ev in
                      (Next,
                       req1\<lparr>req_file :=
                         Some \<lparr>path = p, mimetype = part_mimetype file,
                               size_bytes = length (part_content file)\<rparr>\<rparr>,
                       s\<lparr>files := (files s)(p \<mapsto> part_content file)\<rparr>))))"

section \<open>The application: layers in the order of registration\<close>

text \<open>
  Express keeps the layers of an application in the order in which \<^verbatim>\<open>app.use\<close>,
  \<^verbatim>\<open>app.get\<close> and \<^verbatim>\<open>app.post\<close> registered them and walks that list once, forwards.
  While no error is pending, error-handling layers (functions of four parameters) are
  skipped; once a layer has called \<^verbatim>\<open>next(err)\<close>, only the error-handling layers that
  come after it run. An error that reaches the end of the list is answered by the final
  handler with status 500 (none of the errors here carries a status of its own).
\<close>

datatype layer =
    Use middleware
  | UseError error_middleware
  | Route string string "middleware list"

datatype final = Responded | Unhandled js_error

fun run_route :: "middleware list \<Rightarrow> request \<Rightarrow> server \<Rightarrow> step \<times> request \<times> server" where
  "run_route [] req s = (Next, req, s)"
| "run_route (h # hs) req s =
     (case h req s of
        (Next, req', s') \<Rightarrow> run_route hs req' s'
      | (NextErr e, req', s') \<Rightarrow> (NextErr e, req', s')
      | (Ended, req', s') \<Rightarrow> (Ended, req', s')
      | (Rejected e, req', s') \<Rightarrow> (Rejected e, req', s'))"

definition final_handler :: "js_error option \<Rightarrow> server \<Rightarrow> final \<times> server" where
  "final_handler pending s =
     (case pending of
        None \<Rightarrow> (Responded, s\<lparr>trace := trace s @ [Sent \<lparr>status = 404, payload = NotFoundPage\<rparr>]\<rparr>)
      | Some e \<Rightarrow> (Responded, s\<lparr>trace := trace s @ [Sent \<lparr>status = 500, payload = ErrorPage e\<rparr>]\<rparr>))"

text \<open>
  A rejected promise of an \<^verbatim>\<open>async\<close> handler ends the walk as \<open>Unhandled\<close>: what
  follows depends on the version of Express and is not modelled.
\<close>

fun dispatch :: "layer list \<Rightarrow> js_error option \<Rightarrow> request \<Rightarrow> server \<Rightarrow> final \<times> server" where
  "dispatch [] pending req s = final_handler pending s"
| "dispatch (Use h # ls) None req s =
     (case h req s of
        (Next, req', s') \<Rightarrow> dispatch ls None req' s'
      | (NextErr e, req', s') \<Rightarrow> dispatch ls (Some e) req' s'
      | (Ended, req', s') \<Rightarrow> (Responded, s')
      | (Rejected e, req', s') \<Rightarrow> (Unhandled e, s'))"
| "dispatch (Use h # ls) (Some err) req s = dispatch ls (Some err) req s"
| "dispatch (UseError h # ls) None req s = dispatch ls None req s"
| "dispatch (UseError h # ls) (Some err) req s =
     (case h err req s of
        (Next, req', s') \<Rightarrow> dispatch ls None req' s'
      | (NextErr e, req', s') \<Rightarrow> dispatch ls (Some e) req' s'
      | (Ended, req', s') \<Rightarrow> (Responded, s')
      | (Rejected e, req', s') \<Rightarrow> (Unhandled e, s'))"
| "dispatch (Route m p hs # ls) None req s =
     (if req_method req = m \<and> req_url req = p
      then (case run_route hs req s of
              (Next, req', s') \<Rightarrow> dispatch ls None req' s'
            | (NextErr e, req', s') \<Rightarrow> dispatch ls (Some e) req' s'
            | (Ended, req', s') \<Rightarrow> (Responded, s')
            | (Rejected e, req', s') \<Rightarrow> (Unhandled e, s'))
      else dispatch ls None req s)"
| "dispatch (Route m p hs # ls) (Some err) req s = dispatch ls (Some err) req s"

text \<open>\<^verbatim>\<open>cors()\<close> answers a preflight request itself and lets every other request pass.\<close>

definition cors :: middleware where
  "cors req s =
     (if req_method req = ''OPTIONS''
      then (Ended, req, s\<lparr>trace := trace s @ [Sent \<lparr>status = 204, payload = Plain []\<rparr>]\<rparr>)
      else (Next, req, s))"

text \<open>
  \<^verbatim>\<open>express.json()\<close> on a request without a JSON body (the requests of this model
  carry a multipart form or nothing): \<^verbatim>\<open>req.body = req.body || {}\<close>, then \<^verbatim>\<open>next()\<close>.
\<close>

definition express_json :: middleware where
  "express_json req s =
     (Next, req\<lparr>req_body := Some (case req_body req of None \<Rightarrow> Map.empty | Some b \<Rightarrow> b)\<rparr>, s)"

text \<open>An \<^verbatim>\<open>async (req, res) => ...\<close> handler as the last function of a route.\<close>

definition route_handler :: "(request \<Rightarrow> unit js) \<Rightarrow> middleware" where
  "route_handler h req s =
     (case h req s of (Inl e, s') \<Rightarrow> (Rejected e, req, s') | (Inr u, s') \<Rightarrow> (Ended, req, s'))"

text \<open>The error-handling middleware of \<^verbatim>\<open>index.js\<close> (lines 28-37).\<close>

definition multer_error_handler :: error_middleware where
  "multer_error_handler err req s =
     (case err of
        MulterError code m \<Rightarrow>
          (Ended, req,
           snd (js_bind (console_error (fire @ '' Multer error:'') [LStr code])
                  (\<lambda>_. res_json 400
                          (JObject [(''error'', JString ''Upload error''),
                                    (''details'', JString code)])) s))
      | _ \<Rightarrow> (NextErr err, req, s))"

text \<open>\<^verbatim>\<open>index.js\<close>: cors, the error handler (line 28), then the three routes.\<close>

definition app_index :: "env \<Rightarrow> layer list" where
  "app_index ev =
     [Use cors,
      UseError multer_error_handler,
      Route ''GET'' ''/'' [route_handler health_index],
      Route ''GET'' ''/test-gemini'' [route_handler (test_gemini_index ev)],
      Route ''POST'' ''/analyze-image''
        [upload_single upload_index ev, route_handler (analyze_image_index ev)]]"

text \<open>\<^verbatim>\<open>part_000\<close>: cors, the JSON body parser, then the three routes.\<close>

definition app_part000 :: "env \<Rightarrow> layer list" where
  "app_part000 ev =
     [Use cors,
      Use express_json,
      Route ''GET'' ''/'' [route_handler health_part000],
      Route ''GET'' ''/test-gemini'' [route_handler (test_gemini_part000 ev)],
      Route ''POST'' ''/analyze-image''
        [upload_single upload_part000 ev, route_handler (analyze_image_part000 ev)]]"

section \<open>Observations on a trace\<close>

text \<open>The events a statement added to the trace, the responses among them, the deletions of a path.\<close>

definition emitted :: "server \<Rightarrow> server \<Rightarrow> event list" where
  "emitted s s' = drop (length (trace s)) (trace s')"

fun responses :: "event list \<Rightarrow> response list" where
  "responses [] = []"
| "responses (Sent r # es) = r # responses es"
| "responses (e # es) = responses es"

fun calls_of :: "event list \<Rightarrow> generate_request list" where
  "calls_of [] = []"
| "calls_of (Called g # es) = g # calls_of es"
| "calls_of (e # es) = calls_of es"

definition deletions :: "path \<Rightarrow> event list \<Rightarrow> nat" where
  "deletions p es = length (filter (\<lambda>e. e = Unlinked p) es)"

section \<open>Concrete requests\<close>

text \<open>
  A three-byte upload stored by multer as \<open>uploads/3f2a\<close>, requests that refer to it, a
  request without an image part, one whose image part has 11 MB, and generation services
  that resolve or reject every call.
\<close>

definition jpeg_bytes :: bytes where
  "jpeg_bytes = [0xFF, 0xD8, 0xFF]"

definition stored_upload :: upload where
  "stored_upload = \<lparr>path = ''uploads/3f2a'', mimetype = ''image/jpeg'', size_bytes = 3\<rparr>"

definition disk0 :: server where
  "disk0 = \<lparr>files = [''uploads/3f2a'' \<mapsto> jpeg_bytes], trace = []\<rparr>"

definition empty_disk :: server where
  "empty_disk = \<lparr>files = Map.empty, trace = []\<rparr>"

definition req_describe :: request where
  "req_describe =
     \<lparr>req_method = ''POST'', req_url = ''/analyze-image'', incoming = None,
      req_file = Some stored_upload, req_body = Some [''prompt'' \<mapsto> ''describe'']\<rparr>"

definition req_empty_prompt :: request where
  "req_empty_prompt = req_describe\<lparr>req_body := Some [''prompt'' \<mapsto> []]\<rparr>"

definition req_no_image :: request where
  "req_no_image =
     \<lparr>req_method = ''POST'', req_url = ''/analyze-image'',
      incoming = Some \<lparr>text_fields = [''prompt'' \<mapsto> ''describe''], image = None\<rparr>,
      req_file = None, req_body = None\<rparr>"

definition req_oversize :: request where
  "req_oversize =
     \<lparr>req_method = ''POST'', req_url = ''/analyze-image'',
      incoming =
        Some \<lparr>text_fields = Map.empty,
              image = Some \<lparr>part_mimetype = ''image/jpeg'',
                            part_content = replicate (11 * 1024 * 1024) 0\<rparr>\<rparr>,
      req_file = None, req_body = None\<rparr>"

definition req_test :: request where
  "req_test =
     \<lparr>req_method = ''GET'', req_url = ''/test-gemini'', incoming = None,
      req_file = None, req_body = None\<rparr>"

definition pdf_part :: file_part where
  "pdf_part = \<lparr>part_mimetype = ''application/pdf'', part_content = [0x25, 0x50, 0x44, 0x46]\<rparr>"

definition env_ok :: env where
  "env_ok =
     \<lparr>read_fault = (\<lambda>p. None), encode_fault = (\<lambda>b. None),
      upstream = (\<lambda>g. Inr \<lparr>result_text = ''A cat.''\<rparr>), filename = ''3f2a''\<rparr>"

definition env_fail :: env where
  "env_fail = env_ok\<lparr>upstream := (\<lambda>g. Inl (Error ''quota exceeded''))\<rparr>"

definition env_key :: env where
  "env_key = env_ok\<lparr>upstream := (\<lambda>g. Inl (Error ''API key not valid''))\<rparr>"

section \<open>Running the image handlers\<close>

lemmas js_defs =
  try_catch_def js_bind_def ret_def throw_def emit_def console_log_def console_error_def
  readFileSync_def unlinkSync_def toString_base64_def file_of_def body_prop_def res_json_def
  generateContent_def cleanup_try_def cleanup_catch_def existsSync_def

text \<open>
  A request reaches the generation client when its file is on disk, reading and encoding
  succeed and \<^verbatim>\<open>req.body\<close> is defined. The four lemmas give the whole run of each
  handler from there, for a call that resolves and for a call that rejects.
\<close>

lemma index_resolved:
  assumes "req_file req = Some f" and "files s (path f) = Some b"
    and "read_fault ev (path f) = None" and "encode_fault ev b = None"
    and "req_body req = Some flds"
    and "upstream ev
           \<lparr>model = ''gemini-1.5-flash'',
            contents = [\<lparr>role = ''user'',
                         parts = [Text (or_else (flds ''prompt'') ''Analyze this image''),
                                  InlineData (mimetype f) (base64 b)]\<rparr>]\<rparr> = Inr res"
  shows "analyze_image_index ev req s =
     (Inr (),
      s\<lparr>files := (files s)(path f := None),
        trace := trace s @
          [ConsoleLog (outbox @ '' Image received:'') [LUpload (size_bytes f) (mimetype f)],
           Called \<lparr>model = ''gemini-1.5-flash'',
                   contents = [\<lparr>role = ''user'',
                                parts = [Text (or_else (flds ''prompt'') ''Analyze this image''),
                                         InlineData (mimetype f) (base64 b)]\<rparr>]\<rparr>,
           Unlinked (path f),
           Sent \<lparr>status = 200, payload = Json (JObject [(''output'', JString (result_text res))])\<rparr>]\<rparr>)"
  using assms by (simp add: analyze_image_index_def js_defs Let_def)

lemma index_rejected:
  assumes "req_file req = Some f" and "files s (path f) = Some b"
    and "read_fault ev (path f) = None" and "encode_fault ev b = None"
    and "req_body req = Some flds"
    and "upstream ev
           \<lparr>model = ''gemini-1.5-flash'',
            contents = [\<lparr>role = ''user'',
                         parts = [Text (or_else (flds ''prompt'') ''Analyze this image''),
                                  InlineData (mimetype f) (base64 b)]\<rparr>]\<rparr> = Inl e"
  shows "analyze_image_index ev req s =
     (Inr (),
      s\<lparr>files := (if path f = [] then files s else (files s)(path f := None)),
        trace := trace s @
          [ConsoleLog (outbox @ '' Image received:'') [LUpload (size_bytes f) (mimetype f)],
           Called \<lparr>model = ''gemini-1.5-flash'',
                   contents = [\<lparr>role = ''user'',
                                parts = [Text (or_else (flds ''prompt'') ''Analyze this image''),
                                         InlineData (mimetype f) (base64 b)]\<rparr>]\<rparr>,
           ConsoleError (fire @ '' Gemini error:'') [LErr e]]
          @ (if path f = [] then [] else [Unlinked (path f)])
          @ [Sent \<lparr>status = 500,
                   payload = Json (JObject [(''error'', JString ''Gemini processing failed''),
                                            (''details'', JString (message e))])\<rparr>]\<rparr>)"
  using assms by (simp add: analyze_image_index_def js_defs Let_def)

lemma part000_resolved:
  assumes "req_file req = Some f" and "files s (path f) = Some b"
    and "read_fault ev (path f) = None" and "encode_fault ev b = None"
    and "req_body req = Some flds"
    and "upstream ev
           \<lparr>model = ''gemini-2.0-flash'',
            contents =
              [\<lparr>role = ''user'',
                parts = [Text (or_else (flds ''prompt'') ''Analyze this image and explain what you see''),
                         InlineData (mimetype f) (base64 b)]\<rparr>]\<rparr> = Inr res"
  shows "analyze_image_part000 ev req s =
     (Inr (),
      s\<lparr>files := (files s)(path f := None),
        trace := trace s @
          [Called \<lparr>model = ''gemini-2.0-flash'',
                   contents =
                     [\<lparr>role = ''user'',
                       parts = [Text (or_else (flds ''prompt'') ''Analyze this image and explain what you see''),
                                InlineData (mimetype f) (base64 b)]\<rparr>]\<rparr>,
           Unlinked (path f),
           Sent \<lparr>status = 200, payload = Json (JObject [(''output'', JString (result_text res))])\<rparr>]\<rparr>)"
  using assms by (simp add: analyze_image_part000_def js_defs Let_def)

lemma part000_rejected:
  assumes "req_file req = Some f" and "files s (path f) = Some b"
    and "read_fault ev (path f) = None" and "encode_fault ev b = None"
    and "req_body req = Some flds"
    and "upstream ev
           \<lparr>model = ''gemini-2.0-flash'',
            contents =
              [\<lparr>role = ''user'',
                parts = [Text (or_else (flds ''prompt'') ''Analyze this image and explain what you see''),
                         InlineData (mimetype f) (base64 b)]\<rparr>]\<rparr> = Inl e"
  shows "analyze_image_part000 ev req s =
     (Inr (),
      s\<lparr>files := (if path f = [] then files s else (files s)(path f := None)),
        trace := trace s @
          [Called \<lparr>model = ''gemini-2.0-flash'',
                   contents =
                     [\<lparr>role = ''user'',
                       parts = [Text (or_else (flds ''prompt'') ''Analyze this image and explain what you see''),
                                InlineData (mimetype f) (base64 b)]\<rparr>]\<rparr>,
           ConsoleError ''Gemini image error:'' [LErr e]]
          @ (if path f = [] then [] else [Unlinked (path f)])
          @ [Sent \<lparr>status = 500,
                   payload = Json (JObject [(''error'', JString ''Image analysis failed'')])\<rparr>]\<rparr>)"
  using assms by (simp add: analyze_image_part000_def js_defs Let_def)

text \<open>Facts about the concrete inputs, used where a theorem is applied to them.\<close>

lemma req_describe_file: "req_file req_describe = Some stored_upload"
  by (simp add: req_describe_def)

lemma req_describe_body: "req_body req_describe = Some [''prompt'' \<mapsto> ''describe'']"
  by (simp add: req_describe_def)

lemma stored_upload_path: "path stored_upload \<noteq> []"
  by (simp add: stored_upload_def)

lemma disk0_file: "files disk0 (path stored_upload) = Some jpeg_bytes"
  by (simp add: disk0_def stored_upload_def)

lemma empty_disk_file: "files empty_disk p = None"
  by (simp add: empty_disk_def)

lemma env_ok_faults: "read_fault env_ok p = None" "encode_fault env_ok b = None"
  by (simp_all add: env_ok_def)

lemma env_fail_faults: "read_fault env_fail p = None" "encode_fault env_fail b = None"
  by (simp_all add: env_fail_def env_ok_def)

lemma env_key_faults: "read_fault env_key p = None" "encode_fault env_key b = None"
  by (simp_all add: env_key_def env_ok_def)

lemma env_ok_upstream: "upstream env_ok g = Inr \<lparr>result_text = ''A cat.''\<rparr>"
  by (simp add: env_ok_def)

lemma env_fail_upstream: "upstream env_fail g = Inl (Error ''quota exceeded'')"
  by (simp add: env_fail_def)

lemma env_key_upstream: "upstream env_key g = Inl (Error ''API key not valid'')"
  by (simp add: env_key_def)

lemma base64_jpeg_bytes: "base64 jpeg_bytes = ''/9j/''"
  by (simp add: jpeg_bytes_def b64_def)

section \<open>The temporary file is deleted exactly once\<close>

text \<open>
  With the upload on disk, every run of either handler returns normally, performs exactly
  one deletion of the upload's path and leaves no file there, whatever the reading, the
  encoding and the generation service do.
\<close>

lemma index_stored_run:
  assumes "req_file req = Some f" and "path f \<noteq> []" and "files s (path f) = Some b"
  shows "case analyze_image_index ev req s of (r, s') \<Rightarrow>
           r = Inr () \<and> deletions (path f) (drop (length (trace s)) (trace s')) = 1
           \<and> files s' (path f) = None"
  using assms
  by (simp add: analyze_image_index_def js_defs deletions_def Let_def
      split: option.splits sum.splits)

lemma part000_stored_run:
  assumes "req_file req = Some f" and "path f \<noteq> []" and "files s (path f) = Some b"
  shows "case analyze_image_part000 ev req s of (r, s') \<Rightarrow>
           r = Inr () \<and> deletions (path f) (drop (length (trace s)) (trace s')) = 1
           \<and> files s' (path f) = None"
  using assms
  by (simp add: analyze_image_part000_def js_defs deletions_def Let_def
      split: option.splits sum.splits)

text \<open>
  C1. For every request to POST /analyze-image for which a temporary file is stored
  (\<^verbatim>\<open>req.file\<close> is set, its path is the non-empty name multer gave it and the file is
  on disk), the handler of either variant returns, has deleted that file exactly once
  and the file is gone: on adapter success, on adapter failure and on any exception
  raised while reading or encoding (the environment \<open>ev\<close> is arbitrary).
\<close>

theorem temp_file_deleted_once:
  assumes "req_file req = Some f" and "path f \<noteq> []" and "files s (path f) = Some b"
  shows "fst (analyze_image_index ev req s) = Inr ()
       \<and> deletions (path f) (emitted s (snd (analyze_image_index ev req s))) = 1
       \<and> files (snd (analyze_image_index ev req s)) (path f) = None
       \<and> fst (analyze_image_part000 ev req s) = Inr ()
       \<and> deletions (path f) (emitted s (snd (analyze_image_part000 ev req s))) = 1
       \<and> files (snd (analyze_image_part000 ev req s)) (path f) = None"
  using index_stored_run [OF assms, where ev = ev] part000_stored_run [OF assms, where ev = ev]
  by (simp add: emitted_def split: prod.splits)

theorem temp_file_deleted_once_witness:
  "req_file req_describe = Some stored_upload \<and> path stored_upload \<noteq> []
   \<and> files disk0 (path stored_upload) = Some jpeg_bytes
   \<and> fst (analyze_image_index env_fail req_describe disk0) = Inr ()
   \<and> deletions (path stored_upload)
        (emitted disk0 (snd (analyze_image_index env_fail req_describe disk0))) = 1
   \<and> files (snd (analyze_image_part000 env_fail req_describe disk0)) (path stored_upload) = None"
  using temp_file_deleted_once
    [OF req_describe_file stored_upload_path disk0_file, where ev = env_fail]
    req_describe_file stored_upload_path disk0_file
  by blast

section \<open>Uploads over the size limit\<close>

text \<open>
  C2. An upload whose image part exceeds the limit makes the upload middleware call
  \<^verbatim>\<open>next\<close> with the MulterError \<open>LIMIT_FILE_SIZE\<close>. The claim wants that failure
  converted into a JSON response of class 400. In \<^verbatim>\<open>index.js\<close> the middleware that
  would do so (it answers this very error with status 400) is registered before the
  route, so the walk has already passed it when the error arises; \<^verbatim>\<open>part_000\<close> has
  no such middleware. In both applications the 11 MB upload is answered by the final
  handler: status 500 and an error page, no JSON.
\<close>

theorem oversize_upload_reaches_final_handler:
  "dispatch (app_index env_ok) None req_oversize empty_disk =
     (Responded,
      \<lparr>files = Map.empty,
       trace = [Sent \<lparr>status = 500,
                      payload = ErrorPage (MulterError ''LIMIT_FILE_SIZE'' ''File too large'')\<rparr>]\<rparr>)
   \<and> dispatch (app_part000 env_ok) None req_oversize empty_disk =
     (Responded,
      \<lparr>files = Map.empty,
       trace = [Sent \<lparr>status = 500,
                      payload = ErrorPage (MulterError ''LIMIT_FILE_SIZE'' ''File too large'')\<rparr>]\<rparr>)
   \<and> multer_error_handler (MulterError ''LIMIT_FILE_SIZE'' ''File too large'') req_oversize empty_disk =
     (Ended, req_oversize,
      \<lparr>files = Map.empty,
       trace = [ConsoleError (fire @ '' Multer error:'') [LStr ''LIMIT_FILE_SIZE''],
                Sent \<lparr>status = 400,
                      payload = Json (JObject [(''error'', JString ''Upload error''),
                                               (''details'', JString ''LIMIT_FILE_SIZE'')])\<rparr>]\<rparr>)"
proof (intro conjI)
  have over: "fileSize upload_index < length (part_content \<lparr>part_mimetype = ''image/jpeg'',
                  part_content = replicate (11 * 1024 * 1024) (0 :: 8 word)\<rparr>)"
    "fileSize upload_part000 < length (part_content \<lparr>part_mimetype = ''image/jpeg'',
                  part_content = replicate (11 * 1024 * 1024) (0 :: 8 word)\<rparr>)"
    by (simp_all add: upload_index_def upload_part000_def)
  show "dispatch (app_index env_ok) None req_oversize empty_disk =
     (Responded,
      \<lparr>files = Map.empty,
       trace = [Sent \<lparr>status = 500,
                      payload = ErrorPage (MulterError ''LIMIT_FILE_SIZE'' ''File too large'')\<rparr>]\<rparr>)"
    using over(1)
    by (simp add: app_index_def req_oversize_def empty_disk_def cors_def upload_single_def
        final_handler_def upload_index_def)
  show "dispatch (app_part000 env_ok) None req_oversize empty_disk =
     (Responded,
      \<lparr>files = Map.empty,
       trace = [Sent \<lparr>status = 500,
                      payload = ErrorPage (MulterError ''LIMIT_FILE_SIZE'' ''File too large'')\<rparr>]\<rparr>)"
    using over(2)
    by (simp add: app_part000_def req_oversize_def empty_disk_def cors_def express_json_def
        upload_single_def final_handler_def upload_part000_def fileFilter_part000_def
        startsWith_def)
  show "multer_error_handler (MulterError ''LIMIT_FILE_SIZE'' ''File too large'') req_oversize empty_disk =
     (Ended, req_oversize,
      \<lparr>files = Map.empty,
       trace = [ConsoleError (fire @ '' Multer error:'') [LStr ''LIMIT_FILE_SIZE''],
                Sent \<lparr>status = 400,
                      payload = Json (JObject [(''error'', JString ''Upload error''),
                                               (''details'', JString ''LIMIT_FILE_SIZE'')])\<rparr>]\<rparr>)"
    by (simp add: multer_error_handler_def empty_disk_def js_bind_def console_error_def
        emit_def res_json_def)
qed

section \<open>Requests without an image\<close>

text \<open>
  C3. A request to POST /analyze-image without an \<open>image\<close> part creates no temporary
  file in either variant. \<^verbatim>\<open>part_000\<close> answers it with status 400 and the body
  \<^verbatim>\<open>{error: "Image is required"}\<close>, as the claim says. \<^verbatim>\<open>index.js\<close> has no such
  check: \<^verbatim>\<open>req.file.size\<close> throws a TypeError inside the \<^verbatim>\<open>try\<close> block and the
  \<^verbatim>\<open>catch\<close> block answers with status 500.
\<close>

theorem missing_image_answers:
  "dispatch (app_index env_ok) None req_no_image empty_disk =
     (Responded,
      \<lparr>files = Map.empty,
       trace = [ConsoleError (fire @ '' Gemini error:'') [LErr (cannot_read ''size'')],
                Sent \<lparr>status = 500,
                      payload = Json (JObject [(''error'', JString ''Gemini processing failed''),
                                               (''details'', JString (message (cannot_read ''size'')))])\<rparr>]\<rparr>)
   \<and> dispatch (app_part000 env_ok) None req_no_image empty_disk =
     (Responded,
      \<lparr>files = Map.empty,
       trace = [Sent \<lparr>status = 400,
                      payload = Json (JObject [(''error'', JString ''Image is required'')])\<rparr>]\<rparr>)"
  by (simp add: app_index_def app_part000_def req_no_image_def empty_disk_def cors_def
      express_json_def upload_single_def route_handler_def analyze_image_index_def
      analyze_image_part000_def js_defs)

section \<open>Deleting twice\<close>

text \<open>
  C4, as stated, fails for the delete of the success path. That statement is a bare
  \<^verbatim>\<open>fs.unlinkSync\<close>: on a path that was never written it throws, and performed twice
  on a stored upload it throws the second time.
\<close>

theorem cleanup_try_throws_on_missing_file:
  "fst (cleanup_try stored_upload empty_disk) = Inl (enoent ''unlink'' ''uploads/3f2a'')
   \<and> fst (cleanup_try stored_upload disk0) = Inr ()
   \<and> fst (cleanup_try stored_upload (snd (cleanup_try stored_upload disk0)))
       = Inl (enoent ''unlink'' ''uploads/3f2a'')"
  by (simp add: cleanup_try_def unlinkSync_def stored_upload_def disk0_def empty_disk_def)

lemma cleanup_catch_no_throw: "fst (cleanup_catch req s) = Inr ()"
  by (simp add: cleanup_catch_def unlinkSync_def existsSync_def split: option.splits)

lemma cleanup_catch_twice:
  "cleanup_catch req (snd (cleanup_catch req s)) = (Inr (), snd (cleanup_catch req s))"
  by (simp add: cleanup_catch_def unlinkSync_def existsSync_def split: option.splits)

lemma cleanup_catch_missing:
  assumes "req_file req = Some f" and "files s (path f) = None"
  shows "cleanup_catch req s = (Inr (), s)"
  using assms by (simp add: cleanup_catch_def existsSync_def)

text \<open>
  When a handler has called the generation client and the call resolved, the response
  is the 200 of the success path: the delete that precedes it did not throw.
\<close>

lemma resolved_call_index:
  "case analyze_image_index ev req s of (r, s') \<Rightarrow>
     (case calls_of (drop (length (trace s)) (trace s')) of
        [] \<Rightarrow> True
      | g # gs \<Rightarrow>
          (case upstream ev g of
             Inl e \<Rightarrow> True
           | Inr res \<Rightarrow>
               responses (drop (length (trace s)) (trace s')) =
                 [\<lparr>status = 200,
                   payload = Json (JObject [(''output'', JString (result_text res))])\<rparr>]))"
  by (simp add: analyze_image_index_def js_defs Let_def split: option.splits sum.splits)

lemma resolved_call_part000:
  "case analyze_image_part000 ev req s of (r, s') \<Rightarrow>
     (case calls_of (drop (length (trace s)) (trace s')) of
        [] \<Rightarrow> True
      | g # gs \<Rightarrow>
          (case upstream ev g of
             Inl e \<Rightarrow> True
           | Inr res \<Rightarrow>
               responses (drop (length (trace s)) (trace s')) =
                 [\<lparr>status = 200,
                   payload = Json (JObject [(''output'', JString (result_text res))])\<rparr>]))"
  by (simp add: analyze_image_part000_def js_defs Let_def split: option.splits sum.splits)

text \<open>
  C4, amended. The delete of the \<^verbatim>\<open>catch\<close> path checks existence before removal: it
  never throws, performing it twice leaves the state of the first, and on a path that
  was never written or is already removed it does nothing. The delete of the success
  path has no such check, but a handler performs it only after it has read the same
  path, so it does not throw there: whenever the generation client was called and
  resolved, the response is the 200 that follows the delete.
\<close>

theorem cleanup_catch_idempotent:
  "fst (cleanup_catch req s) = Inr ()
   \<and> cleanup_catch req (snd (cleanup_catch req s)) = (Inr (), snd (cleanup_catch req s))
   \<and> (req_file req = Some f \<and> files s (path f) = None \<longrightarrow> cleanup_catch req s = (Inr (), s))
   \<and> (calls_of (emitted s (snd (analyze_image_index ev req s))) = [g] \<and> upstream ev g = Inr res \<longrightarrow>
        responses (emitted s (snd (analyze_image_index ev req s))) =
          [\<lparr>status = 200, payload = Json (JObject [(''output'', JString (result_text res))])\<rparr>])
   \<and> (calls_of (emitted s (snd (analyze_image_part000 ev req s))) = [g] \<and> upstream ev g = Inr res \<longrightarrow>
        responses (emitted s (snd (analyze_image_part000 ev req s))) =
          [\<lparr>status = 200, payload = Json (JObject [(''output'', JString (result_text res))])\<rparr>])"
proof (intro conjI impI)
  show "fst (cleanup_catch req s) = Inr ()"
    by (rule cleanup_catch_no_throw)
  show "cleanup_catch req (snd (cleanup_catch req s)) = (Inr (), snd (cleanup_catch req s))"
    by (rule cleanup_catch_twice)
next
  assume "req_file req = Some f \<and> files s (path f) = None"
  then show "cleanup_catch req s = (Inr (), s)"
    by (simp add: cleanup_catch_missing)
next
  assume "calls_of (emitted s (snd (analyze_image_index ev req s))) = [g] \<and> upstream ev g = Inr res"
  with resolved_call_index [where ev = ev and req = req and s = s]
  show "responses (emitted s (snd (analyze_image_index ev req s))) =
          [\<lparr>status = 200, payload = Json (JObject [(''output'', JString (result_text res))])\<rparr>]"
    by (simp add: emitted_def split: prod.splits)
next
  assume "calls_of (emitted s (snd (analyze_image_part000 ev req s))) = [g] \<and> upstream ev g = Inr res"
  with resolved_call_part000 [where ev = ev and req = req and s = s]
  show "responses (emitted s (snd (analyze_image_part000 ev req s))) =
          [\<lparr>status = 200, payload = Json (JObject [(''output'', JString (result_text res))])\<rparr>]"
    by (simp add: emitted_def split: prod.splits)
qed

theorem cleanup_catch_idempotent_witness:
  "req_file req_describe = Some stored_upload \<and> files empty_disk (path stored_upload) = None
   \<and> cleanup_catch req_describe empty_disk = (Inr (), empty_disk)
   \<and> fst (cleanup_catch req_describe disk0) = Inr ()
   \<and> cleanup_catch req_describe (snd (cleanup_catch req_describe disk0))
       = (Inr (), snd (cleanup_catch req_describe disk0))
   \<and> calls_of (emitted disk0 (snd (analyze_image_index env_ok req_describe disk0))) =
        [\<lparr>model = ''gemini-1.5-flash'',
          contents = [\<lparr>role = ''user'',
                       parts = [Text ''describe'', InlineData ''image/jpeg'' ''/9j/'']\<rparr>]\<rparr>]
   \<and> upstream env_ok
        \<lparr>model = ''gemini-1.5-flash'',
          contents = [\<lparr>role = ''user'',
                       parts = [Text ''describe'', InlineData ''image/jpeg'' ''/9j/'']\<rparr>]\<rparr>
       = Inr \<lparr>result_text = ''A cat.''\<rparr>
   \<and> responses (emitted disk0 (snd (analyze_image_index env_ok req_describe disk0))) =
        [\<lparr>status = 200, payload = Json (JObject [(''output'', JString ''A cat.'')])\<rparr>]"
proof -
  let ?g = "\<lparr>model = ''gemini-1.5-flash'',
             contents = [\<lparr>role = ''user'',
                          parts = [Text ''describe'', InlineData ''image/jpeg'' ''/9j/'']\<rparr>]\<rparr>"
  have c: "calls_of (emitted disk0 (snd (analyze_image_index env_ok req_describe disk0))) = [?g]"
    using index_resolved [OF req_describe_file disk0_file env_ok_faults req_describe_body
        env_ok_upstream]
    by (simp add: emitted_def or_else_def base64_jpeg_bytes stored_upload_def)
  from cleanup_catch_idempotent
        [where req = req_describe and s = empty_disk and f = stored_upload]
       req_describe_file empty_disk_file
  have a: "cleanup_catch req_describe empty_disk = (Inr (), empty_disk)"
    by blast
  from cleanup_catch_idempotent
        [where req = req_describe and s = disk0 and ev = env_ok and g = ?g
           and res = "\<lparr>result_text = ''A cat.''\<rparr>"]
       c env_ok_upstream
  have b: "fst (cleanup_catch req_describe disk0) = Inr ()
     \<and> cleanup_catch req_describe (snd (cleanup_catch req_describe disk0))
         = (Inr (), snd (cleanup_catch req_describe disk0))
     \<and> responses (emitted disk0 (snd (analyze_image_index env_ok req_describe disk0))) =
          [\<lparr>status = 200, payload = Json (JObject [(''output'', JString ''A cat.'')])\<rparr>]"
    by simp
  from req_describe_file empty_disk_file a b c env_ok_upstream show ?thesis
    by blast
qed

section \<open>The scenario of the prompt "describe"\<close>

text \<open>
  C5. For an upload that is stored and read (no failure of reading or encoding) with
  the prompt text "describe", the generation client is called once, with exactly two
  parts in this order: the text part holding the prompt, then the inline-data part
  holding the declared MIME type and the base64 encoding of the file's bytes. When the
  call resolves with text \<open>t\<close>, the response has status 200 and the body
  \<^verbatim>\<open>{"output": t}\<close>. This holds in both variants (they name different models).
\<close>

theorem describe_scenario:
  assumes "req_file req = Some f" and "files s (path f) = Some b"
    and "read_fault ev (path f) = None" and "encode_fault ev b = None"
    and "req_body req = Some flds" and "flds ''prompt'' = Some ''describe''"
    and "upstream ev
           \<lparr>model = ''gemini-1.5-flash'',
            contents = [\<lparr>role = ''user'',
                         parts = [Text ''describe'', InlineData (mimetype f) (base64 b)]\<rparr>]\<rparr>
         = Inr \<lparr>result_text = t\<rparr>"
    and "upstream ev
           \<lparr>model = ''gemini-2.0-flash'',
            contents = [\<lparr>role = ''user'',
                         parts = [Text ''describe'', InlineData (mimetype f) (base64 b)]\<rparr>]\<rparr>
         = Inr \<lparr>result_text = t\<rparr>"
  shows "calls_of (emitted s (snd (analyze_image_index ev req s))) =
           [\<lparr>model = ''gemini-1.5-flash'',
             contents = [\<lparr>role = ''user'',
                          parts = [Text ''describe'', InlineData (mimetype f) (base64 b)]\<rparr>]\<rparr>]
       \<and> responses (emitted s (snd (analyze_image_index ev req s))) =
           [\<lparr>status = 200, payload = Json (JObject [(''output'', JString t)])\<rparr>]
       \<and> calls_of (emitted s (snd (analyze_image_part000 ev req s))) =
           [\<lparr>model = ''gemini-2.0-flash'',
             contents = [\<lparr>role = ''user'',
                          parts = [Text ''describe'', InlineData (mimetype f) (base64 b)]\<rparr>]\<rparr>]
       \<and> responses (emitted s (snd (analyze_image_part000 ev req s))) =
           [\<lparr>status = 200, payload = Json (JObject [(''output'', JString t)])\<rparr>]"
proof -
  have p1: "or_else (flds ''prompt'') ''Analyze this image'' = ''describe''"
    and p2: "or_else (flds ''prompt'') ''Analyze this image and explain what you see'' = ''describe''"
    using assms(6) by (simp_all add: or_else_def)
  have "analyze_image_index ev req s =
     (Inr (),
      s\<lparr>files := (files s)(path f := None),
        trace := trace s @
          [ConsoleLog (outbox @ '' Image received:'') [LUpload (size_bytes f) (mimetype f)],
           Called \<lparr>model = ''gemini-1.5-flash'',
                   contents = [\<lparr>role = ''user'',
                                parts = [Text ''describe'', InlineData (mimetype f) (base64 b)]\<rparr>]\<rparr>,
           Unlinked (path f),
           Sent \<lparr>status = 200, payload = Json (JObject [(''output'', JString t)])\<rparr>]\<rparr>)"
    using index_resolved [OF assms(1-5), where res = "\<lparr>result_text = t\<rparr>"] assms(7)
    by (simp add: p1)
  moreover have "analyze_image_part000 ev req s =
     (Inr (),
      s\<lparr>files := (files s)(path f := None),
        trace := trace s @
          [Called \<lparr>model = ''gemini-2.0-flash'',
                   contents = [\<lparr>role = ''user'',
                                parts = [Text ''describe'', InlineData (mimetype f) (base64 b)]\<rparr>]\<rparr>,
           Unlinked (path f),
           Sent \<lparr>status = 200, payload = Json (JObject [(''output'', JString t)])\<rparr>]\<rparr>)"
    using part000_resolved [OF assms(1-5), where res = "\<lparr>result_text = t\<rparr>"] assms(8)
    by (simp add: p2)
  ultimately show ?thesis
    by (simp add: emitted_def)
qed

theorem describe_scenario_witness:
  "req_file req_describe = Some stored_upload \<and> files disk0 (path stored_upload) = Some jpeg_bytes
   \<and> read_fault env_ok (path stored_upload) = None \<and> encode_fault env_ok jpeg_bytes = None
   \<and> req_body req_describe = Some [''prompt'' \<mapsto> ''describe'']
   \<and> base64 jpeg_bytes = ''/9j/''
   \<and> calls_of (emitted disk0 (snd (analyze_image_index env_ok req_describe disk0))) =
           [\<lparr>model = ''gemini-1.5-flash'',
             contents = [\<lparr>role = ''user'',
                          parts = [Text ''describe'', InlineData ''image/jpeg'' ''/9j/'']\<rparr>]\<rparr>]
   \<and> responses (emitted disk0 (snd (analyze_image_index env_ok req_describe disk0))) =
           [\<lparr>status = 200, payload = Json (JObject [(''output'', JString ''A cat.'')])\<rparr>]
   \<and> responses (emitted disk0 (snd (analyze_image_part000 env_ok req_describe disk0))) =
           [\<lparr>status = 200, payload = Json (JObject [(''output'', JString ''A cat.'')])\<rparr>]"
proof -
  have p: "[''prompt'' \<mapsto> ''describe''] ''prompt'' = Some ''describe''"
    by simp
  have m: "mimetype stored_upload = ''image/jpeg''"
    by (simp add: stored_upload_def)
  from describe_scenario
        [OF req_describe_file disk0_file env_ok_faults req_describe_body p
            env_ok_upstream env_ok_upstream]
       req_describe_file disk0_file env_ok_faults(1) [of "path stored_upload"]
       env_ok_faults(2) [of jpeg_bytes] req_describe_body base64_jpeg_bytes m
  show ?thesis by simp
qed

section \<open>The default prompt\<close>

text \<open>
  C6. When the request reaches the generation client, the text part passed to it is
  the variant's fixed default instruction if the \<open>prompt\<close> field is missing or empty,
  and the supplied prompt, unchanged, otherwise.
\<close>

theorem prompt_default_or_given:
  assumes "req_file req = Some f" and "files s (path f) = Some b"
    and "read_fault ev (path f) = None" and "encode_fault ev b = None"
    and "req_body req = Some flds"
  shows "calls_of (emitted s (snd (analyze_image_index ev req s))) =
           [\<lparr>model = ''gemini-1.5-flash'',
             contents =
               [\<lparr>role = ''user'',
                 parts =
                   [Text (case flds ''prompt'' of
                            None \<Rightarrow> ''Analyze this image''
                          | Some p \<Rightarrow> if p = [] then ''Analyze this image'' else p),
                    InlineData (mimetype f) (base64 b)]\<rparr>]\<rparr>]
       \<and> calls_of (emitted s (snd (analyze_image_part000 ev req s))) =
           [\<lparr>model = ''gemini-2.0-flash'',
             contents =
               [\<lparr>role = ''user'',
                 parts =
                   [Text (case flds ''prompt'' of
                            None \<Rightarrow> ''Analyze this image and explain what you see''
                          | Some p \<Rightarrow>
                              if p = [] then ''Analyze this image and explain what you see'' else p),
                    InlineData (mimetype f) (base64 b)]\<rparr>]\<rparr>]"
proof
  let ?g = "\<lparr>model = ''gemini-1.5-flash'',
             contents = [\<lparr>role = ''user'',
                          parts = [Text (or_else (flds ''prompt'') ''Analyze this image''),
                                   InlineData (mimetype f) (base64 b)]\<rparr>]\<rparr>"
  have "calls_of (emitted s (snd (analyze_image_index ev req s))) = [?g]"
  proof (cases "upstream ev ?g")
    case (Inl e)
    from index_rejected [OF assms this] show ?thesis
      by (simp add: emitted_def)
  next
    case (Inr res)
    from index_resolved [OF assms this] show ?thesis
      by (simp add: emitted_def)
  qed
  then show "calls_of (emitted s (snd (analyze_image_index ev req s))) =
           [\<lparr>model = ''gemini-1.5-flash'',
             contents =
               [\<lparr>role = ''user'',
                 parts =
                   [Text (case flds ''prompt'' of
                            None \<Rightarrow> ''Analyze this image''
                          | Some p \<Rightarrow> if p = [] then ''Analyze this image'' else p),
                    InlineData (mimetype f) (base64 b)]\<rparr>]\<rparr>]"
    by (simp add: or_else_def)
next
  let ?g = "\<lparr>model = ''gemini-2.0-flash'',
             contents =
               [\<lparr>role = ''user'',
                 parts = [Text (or_else (flds ''prompt'') ''Analyze this image and explain what you see''),
                          InlineData (mimetype f) (base64 b)]\<rparr>]\<rparr>"
  have "calls_of (emitted s (snd (analyze_image_part000 ev req s))) = [?g]"
  proof (cases "upstream ev ?g")
    case (Inl e)
    from part000_rejected [OF assms this] show ?thesis
      by (simp add: emitted_def)
  next
    case (Inr res)
    from part000_resolved [OF assms this] show ?thesis
      by (simp add: emitted_def)
  qed
  then show "calls_of (emitted s (snd (analyze_image_part000 ev req s))) =
           [\<lparr>model = ''gemini-2.0-flash'',
             contents =
               [\<lparr>role = ''user'',
                 parts =
                   [Text (case flds ''prompt'' of
                            None \<Rightarrow> ''Analyze this image and explain what you see''
                          | Some p \<Rightarrow>
                              if p = [] then ''Analyze this image and explain what you see'' else p),
                    InlineData (mimetype f) (base64 b)]\<rparr>]\<rparr>]"
    by (simp add: or_else_def)
qed

theorem prompt_default_or_given_witness:
  "req_file req_empty_prompt = Some stored_upload \<and> files disk0 (path stored_upload) = Some jpeg_bytes
   \<and> read_fault env_ok (path stored_upload) = None \<and> encode_fault env_ok jpeg_bytes = None
   \<and> req_body req_empty_prompt = Some [''prompt'' \<mapsto> []]
   \<and> calls_of (emitted disk0 (snd (analyze_image_index env_ok req_empty_prompt disk0))) =
           [\<lparr>model = ''gemini-1.5-flash'',
             contents = [\<lparr>role = ''user'',
                          parts = [Text ''Analyze this image'',
                                   InlineData (mimetype stored_upload) (base64 jpeg_bytes)]\<rparr>]\<rparr>]
   \<and> calls_of (emitted disk0 (snd (analyze_image_part000 env_ok req_empty_prompt disk0))) =
           [\<lparr>model = ''gemini-2.0-flash'',
             contents = [\<lparr>role = ''user'',
                          parts = [Text ''Analyze this image and explain what you see'',
                                   InlineData (mimetype stored_upload) (base64 jpeg_bytes)]\<rparr>]\<rparr>]"
proof -
  have h1: "req_file req_empty_prompt = Some stored_upload"
    by (simp add: req_empty_prompt_def req_describe_def)
  have h5: "req_body req_empty_prompt = Some [''prompt'' \<mapsto> []]"
    by (simp add: req_empty_prompt_def)
  from prompt_default_or_given [OF h1 disk0_file env_ok_faults h5]
       h1 disk0_file env_ok_faults(1) [of "path stored_upload"] env_ok_faults(2) [of jpeg_bytes] h5
  show ?thesis by simp
qed

section \<open>Upstream failures\<close>

text \<open>
  C7, as stated, fails in \<^verbatim>\<open>index.js\<close>: the body of its 500 response carries the
  message of the upstream error in the field \<open>details\<close>, so two upstream errors that
  differ in their message give two different responses to the same request.
\<close>

theorem index_returns_upstream_message:
  "responses (emitted disk0 (snd (analyze_image_index env_fail req_describe disk0))) =
     [\<lparr>status = 500,
       payload = Json (JObject [(''error'', JString ''Gemini processing failed''),
                                (''details'', JString ''quota exceeded'')])\<rparr>]
   \<and> responses (emitted disk0 (snd (analyze_image_index env_key req_describe disk0))) =
     [\<lparr>status = 500,
       payload = Json (JObject [(''error'', JString ''Gemini processing failed''),
                                (''details'', JString ''API key not valid'')])\<rparr>]
   \<and> responses (emitted disk0 (snd (analyze_image_index env_fail req_describe disk0)))
       \<noteq> responses (emitted disk0 (snd (analyze_image_index env_key req_describe disk0)))"
proof -
  have r1: "responses (emitted disk0 (snd (analyze_image_index env_fail req_describe disk0))) =
     [\<lparr>status = 500,
       payload = Json (JObject [(''error'', JString ''Gemini processing failed''),
                                (''details'', JString ''quota exceeded'')])\<rparr>]"
    using index_rejected [OF req_describe_file disk0_file env_fail_faults req_describe_body
        env_fail_upstream]
    by (simp add: emitted_def)
  have r2: "responses (emitted disk0 (snd (analyze_image_index env_key req_describe disk0))) =
     [\<lparr>status = 500,
       payload = Json (JObject [(''error'', JString ''Gemini processing failed''),
                                (''details'', JString ''API key not valid'')])\<rparr>]"
    using index_rejected [OF req_describe_file disk0_file env_key_faults req_describe_body
        env_key_upstream]
    by (simp add: emitted_def)
  show ?thesis
    unfolding r1 r2 by simp
qed

text \<open>
  C7, amended. For every upstream generation failure on POST /analyze-image the one
  response has status 500 and the upstream error is written to the console. In
  \<^verbatim>\<open>part_000\<close> the body is the fixed \<^verbatim>\<open>{error: "Image analysis failed"}\<close>, the same
  for every upstream error. In \<^verbatim>\<open>index.js\<close> the body is
  \<^verbatim>\<open>{error: "Gemini processing failed", details: <message>}\<close> with the message of the
  upstream error, verbatim.
\<close>

theorem upstream_failure_status_500:
  assumes "req_file req = Some f" and "files s (path f) = Some b"
    and "read_fault ev (path f) = None" and "encode_fault ev b = None"
    and "req_body req = Some flds"
    and "upstream ev
           \<lparr>model = ''gemini-1.5-flash'',
            contents = [\<lparr>role = ''user'',
                         parts = [Text (or_else (flds ''prompt'') ''Analyze this image''),
                                  InlineData (mimetype f) (base64 b)]\<rparr>]\<rparr> = Inl e"
    and "upstream ev
           \<lparr>model = ''gemini-2.0-flash'',
            contents =
              [\<lparr>role = ''user'',
                parts = [Text (or_else (flds ''prompt'') ''Analyze this image and explain what you see''),
                         InlineData (mimetype f) (base64 b)]\<rparr>]\<rparr> = Inl e"
  shows "responses (emitted s (snd (analyze_image_index ev req s))) =
           [\<lparr>status = 500,
             payload = Json (JObject [(''error'', JString ''Gemini processing failed''),
                                      (''details'', JString (message e))])\<rparr>]
       \<and> ConsoleError (fire @ '' Gemini error:'') [LErr e]
            \<in> set (emitted s (snd (analyze_image_index ev req s)))
       \<and> responses (emitted s (snd (analyze_image_part000 ev req s))) =
           [\<lparr>status = 500, payload = Json (JObject [(''error'', JString ''Image analysis failed'')])\<rparr>]
       \<and> ConsoleError ''Gemini image error:'' [LErr e]
            \<in> set (emitted s (snd (analyze_image_part000 ev req s)))"
  using index_rejected [OF assms(1-6)] part000_rejected [OF assms(1-5) assms(7)]
  by (simp add: emitted_def)

theorem upstream_failure_status_500_witness:
  "req_file req_describe = Some stored_upload \<and> files disk0 (path stored_upload) = Some jpeg_bytes
   \<and> read_fault env_fail (path stored_upload) = None \<and> encode_fault env_fail jpeg_bytes = None
   \<and> req_body req_describe = Some [''prompt'' \<mapsto> ''describe'']
   \<and> responses (emitted disk0 (snd (analyze_image_part000 env_fail req_describe disk0))) =
        [\<lparr>status = 500, payload = Json (JObject [(''error'', JString ''Image analysis failed'')])\<rparr>]
   \<and> ConsoleError ''Gemini image error:'' [LErr (Error ''quota exceeded'')]
        \<in> set (emitted disk0 (snd (analyze_image_part000 env_fail req_describe disk0)))
   \<and> responses (emitted disk0 (snd (analyze_image_index env_fail req_describe disk0))) =
        [\<lparr>status = 500,
          payload = Json (JObject [(''error'', JString ''Gemini processing failed''),
                                   (''details'', JString (message (Error ''quota exceeded'')))])\<rparr>]"
  using upstream_failure_status_500
    [OF req_describe_file disk0_file env_fail_faults req_describe_body
        env_fail_upstream env_fail_upstream]
    req_describe_file disk0_file env_fail_faults(1) [of "path stored_upload"]
    env_fail_faults(2) [of jpeg_bytes] req_describe_body
  by blast

section \<open>The text test endpoint\<close>

text \<open>
  C8. GET /test-gemini. In \<^verbatim>\<open>part_000\<close> a resolved call is answered with status 200
  and \<^verbatim>\<open>{success: true, output: <text>}\<close>, a rejected one with status 500 and
  \<^verbatim>\<open>{success: false, error: "Gemini API test failed"}\<close>; the handler returns in both
  cases. In \<^verbatim>\<open>index.js\<close> a resolved call is answered with status 200 and
  \<^verbatim>\<open>{output: <text>}\<close>; a rejected call is not caught: the handler throws the upstream
  error and has sent no response.
\<close>

theorem test_gemini_outcomes:
  "(upstream ev \<lparr>model = ''gemini-2.0-flash'',
                 contents = [\<lparr>role = ''user'',
                              parts = [Text ''Say 'Gemini API is working' in one sentence.'']\<rparr>]\<rparr>
      = Inr res \<longrightarrow>
      fst (test_gemini_part000 ev req s) = Inr () \<and>
      responses (emitted s (snd (test_gemini_part000 ev req s))) =
        [\<lparr>status = 200,
          payload = Json (JObject [(''success'', JBool True),
                                   (''output'', JString (result_text res))])\<rparr>])
   \<and> (upstream ev \<lparr>model = ''gemini-2.0-flash'',
                 contents = [\<lparr>role = ''user'',
                              parts = [Text ''Say 'Gemini API is working' in one sentence.'']\<rparr>]\<rparr>
      = Inl e \<longrightarrow>
      fst (test_gemini_part000 ev req s) = Inr () \<and>
      responses (emitted s (snd (test_gemini_part000 ev req s))) =
        [\<lparr>status = 500,
          payload = Json (JObject [(''success'', JBool False),
                                   (''error'', JString ''Gemini API test failed'')])\<rparr>])
   \<and> (upstream ev \<lparr>model = ''gemini-1.5-flash'',
                 contents = [\<lparr>role = ''user'', parts = [Text ''Say hello'']\<rparr>]\<rparr>
      = Inr res \<longrightarrow>
      fst (test_gemini_index ev req s) = Inr () \<and>
      responses (emitted s (snd (test_gemini_index ev req s))) =
        [\<lparr>status = 200, payload = Json (JObject [(''output'', JString (result_text res))])\<rparr>])
   \<and> (upstream ev \<lparr>model = ''gemini-1.5-flash'',
                 contents = [\<lparr>role = ''user'', parts = [Text ''Say hello'']\<rparr>]\<rparr>
      = Inl e \<longrightarrow>
      fst (test_gemini_index ev req s) = Inl e \<and>
      responses (emitted s (snd (test_gemini_index ev req s))) = [])"
  by (simp add: test_gemini_part000_def test_gemini_index_def try_catch_def js_bind_def
      generateContent_def emit_def ret_def throw_def res_json_def console_error_def emitted_def)

theorem test_gemini_outcomes_witness:
  "upstream env_ok \<lparr>model = ''gemini-2.0-flash'',
                 contents = [\<lparr>role = ''user'',
                              parts = [Text ''Say 'Gemini API is working' in one sentence.'']\<rparr>]\<rparr>
      = Inr \<lparr>result_text = ''A cat.''\<rparr>
   \<and> responses (emitted empty_disk (snd (test_gemini_part000 env_ok req_test empty_disk))) =
        [\<lparr>status = 200,
          payload = Json (JObject [(''success'', JBool True), (''output'', JString ''A cat.'')])\<rparr>]
   \<and> responses (emitted empty_disk (snd (test_gemini_index env_ok req_test empty_disk))) =
        [\<lparr>status = 200, payload = Json (JObject [(''output'', JString ''A cat.'')])\<rparr>]
   \<and> upstream env_fail \<lparr>model = ''gemini-1.5-flash'',
                 contents = [\<lparr>role = ''user'', parts = [Text ''Say hello'']\<rparr>]\<rparr>
      = Inl (Error ''quota exceeded'')
   \<and> responses (emitted empty_disk (snd (test_gemini_part000 env_fail req_test empty_disk))) =
        [\<lparr>status = 500,
          payload = Json (JObject [(''success'', JBool False),
                                   (''error'', JString ''Gemini API test failed'')])\<rparr>]
   \<and> fst (test_gemini_index env_fail req_test empty_disk) = Inl (Error ''quota exceeded'')
   \<and> responses (emitted empty_disk (snd (test_gemini_index env_fail req_test empty_disk))) = []"
  using test_gemini_outcomes
          [where ev = env_ok and res = "\<lparr>result_text = ''A cat.''\<rparr>"
             and req = req_test and s = empty_disk]
        test_gemini_outcomes
          [where ev = env_fail and e = "Error ''quota exceeded''"
             and req = req_test and s = empty_disk]
        env_ok_upstream env_fail_upstream
  by simp

section \<open>The file filter\<close>

text \<open>
  C9. The file filter of \<^verbatim>\<open>part_000\<close> ends every run with the acceptance
  \<^verbatim>\<open>cb(null, true)\<close>. For a file whose MIME type starts with \<open>image/\<close> that is its only
  call; for any other file it calls the callback twice, first with the error "Only
  image files allowed", then with the acceptance, so the rejection is not its last word.
\<close>

theorem fileFilter_always_accepts:
  "last (fileFilter_part000 file) = CbAccept True
   \<and> CbAccept True \<in> set (fileFilter_part000 file)
   \<and> (startsWith (part_mimetype file) ''image/'' \<longrightarrow> fileFilter_part000 file = [CbAccept True])
   \<and> (\<not> startsWith (part_mimetype file) ''image/'' \<longrightarrow>
        fileFilter_part000 file = [CbError (Error ''Only image files allowed''), CbAccept True])"
proof (cases "startsWith (part_mimetype file) ''image/''")
  case True
  then have "fileFilter_part000 file = [CbAccept True]"
    by (simp add: fileFilter_part000_def)
  with True show ?thesis by simp
next
  case False
  then have "fileFilter_part000 file = [CbError (Error ''Only image files allowed''), CbAccept True]"
    by (simp add: fileFilter_part000_def)
  with False show ?thesis by simp
qed

theorem fileFilter_always_accepts_witness:
  "\<not> startsWith (part_mimetype pdf_part) ''image/''
   \<and> fileFilter_part000 pdf_part = [CbError (Error ''Only image files allowed''), CbAccept True]
   \<and> last (fileFilter_part000 pdf_part) = CbAccept True"
proof -
  have h: "\<not> startsWith (part_mimetype pdf_part) ''image/''"
    by (simp add: startsWith_def pdf_part_def)
  with fileFilter_always_accepts [of pdf_part] show ?thesis
    by blast
qed

section \<open>One response per request\<close>

lemma one_response_index:
  "case analyze_image_index ev req s of (r, s') \<Rightarrow>
     r = Inr () \<and> length (responses (drop (length (trace s)) (trace s'))) = 1"
  by (simp add: analyze_image_index_def js_defs Let_def split: option.splits sum.splits)

lemma one_response_part000:
  "case analyze_image_part000 ev req s of (r, s') \<Rightarrow>
     r = Inr () \<and> length (responses (drop (length (trace s)) (trace s'))) = 1"
  by (simp add: analyze_image_part000_def js_defs Let_def split: option.splits sum.splits)

text \<open>
  C10. On every run of the POST /analyze-image handler of either variant (no file,
  success, or the \<^verbatim>\<open>catch\<close> block) the handler returns and has sent exactly one
  response.
\<close>

theorem exactly_one_response:
  "fst (analyze_image_index ev req s) = Inr ()
   \<and> length (responses (emitted s (snd (analyze_image_index ev req s)))) = 1
   \<and> fst (analyze_image_part000 ev req s) = Inr ()
   \<and> length (responses (emitted s (snd (analyze_image_part000 ev req s)))) = 1"
  using one_response_index [where ev = ev and req = req and s = s]
    one_response_part000 [where ev = ev and req = req and s = s]
  by (simp add: emitted_def split: prod.splits)

end
